theory Spec2Isabelle
  imports Complex_Main "HOL-Library.Log_Nat"
begin

section \<open>Crescent City inundation notebook: the colour ramp, the masking cell, the grid loader\<close>

text \<open>
  The notebook \<^verbatim>\<open>notebooks/Crescent_City_Inundation_CartopyMap.ipynb\<close> defines one
  function, \<^verbatim>\<open>discrete_cmap_1\<close>, and one cell that masks the loaded arrays. Python's
  \<^verbatim>\<open>int\<close> is modelled by \<^typ>\<open>int\<close>, an exception by the left summand of
  \<open>error + 'a\<close>. Python's \<^verbatim>\<open>float\<close> is modelled twice. \<open>discrete_cmap_1\<close> computes in
  \<^typ>\<open>real\<close>, in exact arithmetic without rounding: it decides how many colours
  there are, when the function fails, and the bounds and the order of the channels.
  \<open>discrete_cmap_1_f64\<close> rounds the result of every operation to binary64, as numpy
  does: it decides the exact values of the interpolated channels.
\<close>

datatype error = ValueError | IndexError | NameError | FormatError | IOError

subsection \<open>The numpy functions the notebook calls\<close>

text \<open>
  \<^verbatim>\<open>numpy.linspace(start, stop, num)\<close> with the default \<^verbatim>\<open>endpoint=True\<close>:
  \<^verbatim>\<open>
    if num < 0: raise ValueError("Number of samples, %s, must be non-negative." % num)
    div = num - 1
    y = arange(0, num)
    delta = stop - start
    if div > 0:  y = y * (delta / div)
    else:        y = y * delta
    y += start
    if num > 1:  y[-1] = stop
  \<close>
\<close>

definition linspace :: "real \<Rightarrow> real \<Rightarrow> int \<Rightarrow> error + real list" where
  "linspace start stop num =
     (if num < 0 then Inl ValueError
      else
        let dv = num - 1;
            delta = stop - start;
            y = map (\<lambda>i. (if dv > 0 then real i * (delta / real_of_int dv)
                           else real i * delta) + start) [0..<nat num]
        in Inr (if num > 1 then y[nat num - 1 := stop] else y))"

text \<open>\<^verbatim>\<open>numpy.ones(n)\<close> and \<^verbatim>\<open>numpy.zeros(n)\<close>: a negative dimension raises ValueError.\<close>

definition ones :: "int \<Rightarrow> error + real list" where
  "ones n = (if n < 0 then Inl ValueError else Inr (replicate (nat n) 1))"

definition zeros :: "int \<Rightarrow> error + real list" where
  "zeros n = (if n < 0 then Inl ValueError else Inr (replicate (nat n) 0))"

text \<open>\<^verbatim>\<open>numpy.hstack\<close> on one-dimensional arrays concatenates them.\<close>

definition hstack :: "real list list \<Rightarrow> real list" where
  "hstack arrs = concat arrs"

subsection \<open>\<^verbatim>\<open>discrete_cmap_1\<close>\<close>

text \<open>
  \<^verbatim>\<open>
  def discrete_cmap_1(clines):
      from numpy import floor, linspace, hstack, ones, zeros
      nlines = len(clines)
      n1 = int(floor((nlines-1)/2.))
      n2 = nlines - 1 - n1
      Green = hstack([linspace(1,1,n1),linspace(1,0,n2)])
      Red = hstack([linspace(0,0.8,n1), ones(n2)])
      Blue = hstack([linspace(1,0.2,n1), zeros(n2)])
      colors = list(zip(Red,Green,Blue))
      return colors
  \<close>
  The calls are evaluated in the order of the source and the first exception ends the
  function. A colour is the triple \<open>(red, green, blue)\<close>.
\<close>

type_synonym rgb = "real \<times> real \<times> real"

text \<open>The two lines that split the \<open>nlines - 1\<close> intervals into \<open>(n1, n2)\<close>.\<close>

definition split_intervals :: "int \<Rightarrow> int \<times> int" where
  "split_intervals nlines =
     (let n1 = \<lfloor>real_of_int (nlines - 1) / 2\<rfloor>;
          n2 = nlines - 1 - n1
      in (n1, n2))"

definition discrete_cmap_1 :: "real list \<Rightarrow> error + rgb list" where
  "discrete_cmap_1 clines =
     (let nlines = int (length clines);
          (n1, n2) = split_intervals nlines
      in case linspace 1 1 n1 of Inl e \<Rightarrow> Inl e | Inr g1 \<Rightarrow>
         (case linspace 1 0 n2 of Inl e \<Rightarrow> Inl e | Inr g2 \<Rightarrow>
         (let Green = hstack [g1, g2]
          in case linspace 0 0.8 n1 of Inl e \<Rightarrow> Inl e | Inr r1 \<Rightarrow>
         (case ones n2 of Inl e \<Rightarrow> Inl e | Inr r2 \<Rightarrow>
         (let Red = hstack [r1, r2]
          in case linspace 1 0.2 n1 of Inl e \<Rightarrow> Inl e | Inr b1 \<Rightarrow>
         (case zeros n2 of Inl e \<Rightarrow> Inl e | Inr b2 \<Rightarrow>
         (let Blue = hstack [b1, b2]
          in Inr (zip Red (zip Green Blue)))))))))"

text \<open>
  The specification's wording of a channel: \<open>n\<close> values running linearly from \<open>a\<close> to
  \<open>b\<close>, the first one \<open>a\<close>, the last one \<open>b\<close>, equal steps in between; a single value
  is the start value \<open>a\<close>.
\<close>

definition linear_ramp :: "real \<Rightarrow> real \<Rightarrow> nat \<Rightarrow> nat \<Rightarrow> real" where
  "linear_ramp a b n k = (if n \<le> 1 then a else a + (b - a) * real k / real (n - 1))"

text \<open>
  The colours of the specification for \<open>n1\<close> low and \<open>n2\<close> high intervals: red runs
  from 0 to 0.8, green is 1 and blue runs from 1 to 0.2 on the low intervals; red is 1,
  green runs from 1 to 0 and blue is 0 on the high intervals.
\<close>

definition ramp_colours :: "nat \<Rightarrow> nat \<Rightarrow> rgb list" where
  "ramp_colours n1 n2 =
     map (\<lambda>k. (linear_ramp 0 0.8 n1 k, 1, linear_ramp 1 0.2 n1 k)) [0..<n1] @
     map (\<lambda>k. (1, linear_ramp 1 0 n2 k, 0)) [0..<n2]"

section \<open>The colour ramp in binary64 arithmetic\<close>







text \<open>\<open>x\<close> approximates \<open>y\<close> with relative error at most \<open>e\<close>.\<close>

definition rel_err :: "real \<Rightarrow> real \<Rightarrow> real \<Rightarrow> bool" where
  "rel_err x y e \<longleftrightarrow> \<bar>x - y\<bar> \<le> e * \<bar>y\<bar>"

section \<open>The masking cell\<close>

text \<open>
  \<^verbatim>\<open>
  from numpy import ma  # masked arrays

  # mask out the dry cells (e.g., where depth < 1 mm):
  hmax_dry = ma.masked_where(hmax < 0.001, hmax)

  # mask out the water region if we only care about onshore:
  hmax_onshore = ma.masked_where(topo < 0, hmax_dry)
  \<close>
  The rest of the cell draws the arrays with matplotlib and assigns none of them.

  An array object has a shape, its data in row-major order and, for a masked array, a
  mask; a plain \<^verbatim>\<open>ndarray\<close> has none. Objects live in a store, a list indexed by
  address, so that two names can hold the same array; a new object is appended. The
  notebook's global names map to addresses.
\<close>

record ndarray =
  shape :: "nat list"
  data :: "real list"
  mask :: "bool list option"

type_synonym store = "ndarray list"

record notebook =
  objects :: store
  names :: "string \<Rightarrow> nat option"

text \<open>Reading a global name: an unbound name raises NameError.\<close>

definition lookup :: "notebook \<Rightarrow> string \<Rightarrow> error + nat" where
  "lookup nb x =
     (case names nb x of
        None \<Rightarrow> Inl NameError
      | Some a \<Rightarrow> if a < length (objects nb) then Inr a else Inl NameError)"

text \<open>
  \<^verbatim>\<open>a < c\<close> for an array and a scalar: a new boolean array of the same shape, a
  temporary that no name holds; it is passed on as a value.
\<close>

definition less_scalar :: "ndarray \<Rightarrow> real \<Rightarrow> nat list \<times> bool list" where
  "less_scalar a c = (shape a, map (\<lambda>v. v < c) (data a))"

text \<open>
  \<^verbatim>\<open>numpy.ma.masked_where(condition, a, copy=True)\<close>:
  \<^verbatim>\<open>
    cond = make_mask(condition, shrink=False)
    a = np.array(a, copy=copy, subok=True)
    (cshape, ashape) = (cond.shape, a.shape)
    if cshape and cshape != ashape:
        raise IndexError("Inconsistent shape between the condition and the input ...")
    if hasattr(a, '_mask'):
        cond = mask_or(cond, a._mask)
    ...
    result = a.view(cls)
    result.mask = _shrink_mask(cond)
    return result
  \<close>
  With \<^verbatim>\<open>copy=True\<close> the result is a new object; with \<^verbatim>\<open>copy=False\<close> numpy
  documents "modify \<^verbatim>\<open>a\<close> in place and return a view", which is the object at the
  address of \<^verbatim>\<open>a\<close> itself with the new mask.
\<close>

definition mask_or :: "bool list \<Rightarrow> bool list option \<Rightarrow> bool list" where
  "mask_or cond m = (case m of None \<Rightarrow> cond | Some am \<Rightarrow> map (\<lambda>(c, b). c \<or> b) (zip cond am))"

definition masked_where ::
  "nat list \<times> bool list \<Rightarrow> nat \<Rightarrow> bool \<Rightarrow> store \<Rightarrow> error + (nat \<times> store)" where
  "masked_where condition a copy st =
     (let arr = st ! a;
          (cshape, cond) = condition
      in if cshape \<noteq> [] \<and> cshape \<noteq> shape arr then Inl IndexError
         else
           let result = arr\<lparr>mask := Some (mask_or cond (mask arr))\<rparr>
           in if copy then Inr (length st, st @ [result])
              else Inr (a, st[a := result]))"

text \<open>
  The two assignments of the cell, in the order of the source: the condition is
  evaluated before the second argument, \<^verbatim>\<open>copy\<close> is left at its default.
\<close>

definition masking_cell :: "notebook \<Rightarrow> error + notebook" where
  "masking_cell nb =
     (case lookup nb ''hmax'' of Inl e \<Rightarrow> Inl e | Inr h \<Rightarrow>
      (let c1 = less_scalar (objects nb ! h) 0.001
       in case masked_where c1 h True (objects nb) of Inl e \<Rightarrow> Inl e | Inr (d, st1) \<Rightarrow>
      (let nb1 = nb\<lparr>objects := st1, names := (names nb)(''hmax_dry'' \<mapsto> d)\<rparr>
       in case lookup nb1 ''topo'' of Inl e \<Rightarrow> Inl e | Inr t \<Rightarrow>
      (let c2 = less_scalar (objects nb1 ! t) 0
       in case lookup nb1 ''hmax_dry'' of Inl e \<Rightarrow> Inl e | Inr d' \<Rightarrow>
      (case masked_where c2 d' True (objects nb1) of Inl e \<Rightarrow> Inl e | Inr (s, st2) \<Rightarrow>
         Inr (nb1\<lparr>objects := st2, names := (names nb1)(''hmax_onshore'' \<mapsto> s)\<rparr>))))))"

section \<open>The grid loader\<close>

text \<open>
  The notebook imports \<^verbatim>\<open>read_asc_file\<close> from the module \<^verbatim>\<open>data_tools.py\<close> of the
  repository, and only the notebook is among the sources. Every definition of this
  section is therefore written from the specification: its section 4.1
  (\<^verbatim>\<open>load_raster\<close>), its data model (section 3) and its file format (section 6). The
  two number parsers are parameters: \<open>pint\<close> reads an integer token, \<open>pfloat\<close> a
  floating-point token, \<open>None\<close> when the token is not numeric.
\<close>

text \<open>
  Modelled from the spec: the records \<^verbatim>\<open>RasterHeader\<close> and \<^verbatim>\<open>Grid\<close> of the data model
  (\<^verbatim>\<open>data_tools.py\<close> is missing): the six header fields; the value array as a list of
  rows, with the coordinate vectors \<open>X\<close> and \<open>Y\<close> and the header kept as provenance.
\<close>

record RasterHeader =
  ncols :: int
  nrows :: int
  xll_corner :: real
  yll_corner :: real
  cell_size :: real
  nodata_value :: real

record Grid =
  header :: RasterHeader
  grid_values :: "real list list"
  X :: "real list"
  Y :: "real list"

text \<open>
  Modelled from the spec: the six recognised header keys (\<^verbatim>\<open>data_tools.py\<close> is
  missing).
\<close>

datatype hkey = K_ncols | K_nrows | K_xllcorner | K_yllcorner | K_cellsize | K_nodata_value

text \<open>
  Modelled from the spec: "split on whitespace" (\<^verbatim>\<open>data_tools.py\<close> is missing), as
  Python's \<^verbatim>\<open>str.split()\<close> does it: runs of whitespace separate the tokens, and there
  is no empty token.
\<close>

definition is_space :: "char \<Rightarrow> bool" where
  "is_space c = (c \<in> set [CHR '' '', CHR 0x09, CHR 0x0A, CHR 0x0B, CHR 0x0C, CHR 0x0D])"

fun split_ws :: "string \<Rightarrow> string \<Rightarrow> string list" where
  "split_ws cur [] = (if cur = [] then [] else [rev cur])"
| "split_ws cur (c # cs) =
     (if is_space c then (if cur = [] then split_ws [] cs else rev cur # split_ws [] cs)
      else split_ws (c # cur) cs)"

definition tokens :: "string \<Rightarrow> string list" where
  "tokens line = split_ws [] line"

text \<open>
  Modelled from the spec: "keys are matched case-insensitively" (\<^verbatim>\<open>data_tools.py\<close> is
  missing): a key is compared in lower case.
\<close>

definition lower_char :: "char \<Rightarrow> char" where
  "lower_char c =
     (let n = (of_char c :: nat)
      in if 65 \<le> n \<and> n \<le> 90 then char_of (n + 32) else c)"

definition key_of :: "string \<Rightarrow> hkey option" where
  "key_of s =
     (let l = map lower_char s
      in if l = ''ncols'' then Some K_ncols
         else if l = ''nrows'' then Some K_nrows
         else if l = ''xllcorner'' then Some K_xllcorner
         else if l = ''yllcorner'' then Some K_yllcorner
         else if l = ''cellsize'' then Some K_cellsize
         else if l = ''nodata_value'' then Some K_nodata_value
         else None)"

text \<open>
  Modelled from the spec: a header line is a \<^verbatim>\<open>key value\<close> pair with a recognised key
  (\<^verbatim>\<open>data_tools.py\<close> is missing); \<open>all_seen\<close> says that each of the six keys has
  been read.
\<close>

definition header_entry :: "string \<Rightarrow> (hkey \<times> string) option" where
  "header_entry line =
     (case tokens line of
        [k, v] \<Rightarrow> (case key_of k of None \<Rightarrow> None | Some key \<Rightarrow> Some (key, v))
      | _ \<Rightarrow> None)"

definition all_seen :: "(hkey \<Rightarrow> string option) \<Rightarrow> bool" where
  "all_seen seen =
     (seen K_ncols \<noteq> None \<and> seen K_nrows \<noteq> None \<and> seen K_xllcorner \<noteq> None \<and>
      seen K_yllcorner \<noteq> None \<and> seen K_cellsize \<noteq> None \<and> seen K_nodata_value \<noteq> None)"

text \<open>
  Modelled from the spec: the header loop of \<^verbatim>\<open>load_raster\<close> (\<^verbatim>\<open>read_asc_file\<close> of
  \<^verbatim>\<open>data_tools.py\<close> is missing). "Read header lines first, stopping once all six
  recognized keys are seen; remaining lines are treated as the data block"; a line that
  is no header line before that, or the end of the file, leaves a required key missing.
\<close>

fun read_header ::
  "string list \<Rightarrow> (hkey \<Rightarrow> string option) \<Rightarrow> error + ((hkey \<Rightarrow> string option) \<times> string list)"
where
  "read_header [] seen = (if all_seen seen then Inr (seen, []) else Inl FormatError)"
| "read_header (l # ls) seen =
     (if all_seen seen then Inr (seen, l # ls)
      else case header_entry l of
             None \<Rightarrow> Inl FormatError
           | Some (key, v) \<Rightarrow> read_header ls (seen(key \<mapsto> v)))"

text \<open>
  Modelled from the spec: the header values (\<^verbatim>\<open>data_tools.py\<close> is missing). "A header
  value is non-numeric" is a FormatError: a value that its parser refuses gives \<open>None\<close>.
\<close>

definition make_header ::
  "(string \<Rightarrow> int option) \<Rightarrow> (string \<Rightarrow> real option) \<Rightarrow> (hkey \<Rightarrow> string option) \<Rightarrow>
   RasterHeader option" where
  "make_header pint pfloat seen =
     (case Option.bind (seen K_ncols) pint of None \<Rightarrow> None | Some nc \<Rightarrow>
      (case Option.bind (seen K_nrows) pint of None \<Rightarrow> None | Some nr \<Rightarrow>
      (case Option.bind (seen K_xllcorner) pfloat of None \<Rightarrow> None | Some x \<Rightarrow>
      (case Option.bind (seen K_yllcorner) pfloat of None \<Rightarrow> None | Some y \<Rightarrow>
      (case Option.bind (seen K_cellsize) pfloat of None \<Rightarrow> None | Some c \<Rightarrow>
      (case Option.bind (seen K_nodata_value) pfloat of None \<Rightarrow> None | Some nd \<Rightarrow>
         Some \<lparr>ncols = nc, nrows = nr, xll_corner = x, yll_corner = y,
               cell_size = c, nodata_value = nd\<rparr>))))))"

text \<open>
  Modelled from the spec: the data block (\<^verbatim>\<open>data_tools.py\<close> is missing). "Each data line
  is split on whitespace and parsed as floating point; a row with a different token
  count than ncols is a fatal format error."
\<close>

fun parse_floats :: "(string \<Rightarrow> real option) \<Rightarrow> string list \<Rightarrow> real list option" where
  "parse_floats pfloat [] = Some []"
| "parse_floats pfloat (t # ts) =
     (case pfloat t of
        None \<Rightarrow> None
      | Some v \<Rightarrow> (case parse_floats pfloat ts of None \<Rightarrow> None | Some vs \<Rightarrow> Some (v # vs)))"

definition parse_row :: "(string \<Rightarrow> real option) \<Rightarrow> int \<Rightarrow> string \<Rightarrow> real list option" where
  "parse_row pfloat nc line =
     (let ts = tokens line
      in if int (length ts) \<noteq> nc then None else parse_floats pfloat ts)"

fun parse_rows :: "(string \<Rightarrow> real option) \<Rightarrow> int \<Rightarrow> string list \<Rightarrow> real list list option" where
  "parse_rows pfloat nc [] = Some []"
| "parse_rows pfloat nc (l # ls) =
     (case parse_row pfloat nc l of
        None \<Rightarrow> None
      | Some r \<Rightarrow> (case parse_rows pfloat nc ls of None \<Rightarrow> None | Some rs \<Rightarrow> Some (r # rs)))"

text \<open>
  Modelled from the spec: the coordinate vectors (\<^verbatim>\<open>data_tools.py\<close> is missing).
  \<open>X[j] = xll_corner + (j + 0.5) * cell_size\<close> for \<open>j\<close> in \<open>[0, ncols)\<close> and
  \<open>Y[i] = yll_corner + (nrows - 1 - i + 0.5) * cell_size\<close> for \<open>i\<close> in \<open>[0, nrows)\<close>.
\<close>

definition x_coords :: "RasterHeader \<Rightarrow> real list" where
  "x_coords h = map (\<lambda>j. xll_corner h + (real j + 0.5) * cell_size h) [0..<nat (ncols h)]"

definition y_coords :: "RasterHeader \<Rightarrow> real list" where
  "y_coords h =
     map (\<lambda>i. yll_corner h + (real_of_int (nrows h - 1 - int i) + 0.5) * cell_size h)
       [0..<nat (nrows h)]"

text \<open>
  Modelled from the spec: \<^verbatim>\<open>load_raster(path, validate)\<close> (\<^verbatim>\<open>read_asc_file\<close> of
  \<^verbatim>\<open>data_tools.py\<close> is missing). The file system maps a path to the lines of the file;
  a path that is not there is an IOError. The header is read, then the data block; the
  number of data rows must be \<open>nrows\<close> "or loading fails". With \<open>validate\<close> the number of
  cells equal to \<open>nodata_value\<close> is reported beside the grid; it is never an error.
\<close>

definition load_raster ::
  "(string \<Rightarrow> int option) \<Rightarrow> (string \<Rightarrow> real option) \<Rightarrow> (string \<Rightarrow> string list option) \<Rightarrow>
   string \<Rightarrow> bool \<Rightarrow> error + (Grid \<times> nat option)" where
  "load_raster pint pfloat fs path validate =
     (case fs path of
        None \<Rightarrow> Inl IOError
      | Some ls \<Rightarrow>
     (case read_header ls Map.empty of
        Inl e \<Rightarrow> Inl e
      | Inr (seen, rest) \<Rightarrow>
     (case make_header pint pfloat seen of
        None \<Rightarrow> Inl FormatError
      | Some h \<Rightarrow>
     (case parse_rows pfloat (ncols h) rest of
        None \<Rightarrow> Inl FormatError
      | Some vals \<Rightarrow>
          if int (length vals) \<noteq> nrows h then Inl FormatError
          else Inr (\<lparr>header = h, grid_values = vals, X = x_coords h, Y = y_coords h\<rparr>,
                    if validate
                    then Some (length (filter (\<lambda>v. v = nodata_value h) (concat vals)))
                    else None)))))"

text \<open>
  Modelled from the spec: a well-formed file, that is the file format of the
  specification's section 6 as a predicate on the lines of a file; \<open>declared\<close> is the
  table of the header values the file declares. Six header lines, each a recognised key with a value, no key twice (so each of
  the six keys once, in any order); the values numeric, \<open>ncols\<close>, \<open>nrows\<close> and
  \<open>cellsize\<close> positive (section 3); then exactly \<open>nrows\<close> lines of exactly \<open>ncols\<close>
  numeric tokens each.
\<close>

definition declared :: "string list \<Rightarrow> hkey \<Rightarrow> string option" where
  "declared ls = map_of (map the (map header_entry (take 6 ls)))"

definition well_formed ::
  "(string \<Rightarrow> int option) \<Rightarrow> (string \<Rightarrow> real option) \<Rightarrow> string list \<Rightarrow> bool" where
  "well_formed pint pfloat ls =
     (6 \<le> length ls \<and>
      list_all (\<lambda>l. header_entry l \<noteq> None) (take 6 ls) \<and>
      distinct (map (\<lambda>l. fst (the (header_entry l))) (take 6 ls)) \<and>
      (case make_header pint pfloat (declared ls) of
         None \<Rightarrow> False
       | Some h \<Rightarrow>
           0 < ncols h \<and> 0 < nrows h \<and> 0 < cell_size h \<and>
           int (length (drop 6 ls)) = nrows h \<and>
           list_all (\<lambda>l. int (length (tokens l)) = ncols h \<and>
                          list_all (\<lambda>t. pfloat t \<noteq> None) (tokens l)) (drop 6 ls)))"

section \<open>Example inputs\<close>

text \<open>
  A notebook state with two loaded arrays of the same shape, and a raster file of two
  rows and three columns with its parsers; the theorems below are run on them.
\<close>

definition demo_notebook :: notebook where
  "demo_notebook =
     \<lparr>objects = [\<lparr>shape = [1, 3], data = [0, 2.5, 1.5], mask = None\<rparr>,
                 \<lparr>shape = [1, 3], data = [-1, 3, -2], mask = None\<rparr>],
      names = map_of [(''hmax'', 0), (''topo'', 1)]\<rparr>"

definition demo_lines :: "string list" where
  "demo_lines =
     [''ncols 3'', ''NROWS  2'', ''xllcorner 10'', ''yllcorner 20'', ''cellsize 2'',
      ''NODATA_value -9999'', ''1 2 3'', '' 4 -9999   5 '']"

definition demo_pint :: "string \<Rightarrow> int option" where
  "demo_pint = map_of [(''2'', 2), (''3'', 3)]"

definition demo_pfloat :: "string \<Rightarrow> real option" where
  "demo_pfloat =
     map_of [(''1'', 1), (''2'', 2), (''3'', 3), (''4'', 4), (''5'', 5),
             (''10'', 10), (''20'', 20), (''-9999'', -9999)]"

definition demo_fs :: "string \<Rightarrow> string list option" where
  "demo_fs = map_of [(''hmax_CC.asc'', demo_lines)]"

section \<open>Properties of the colour ramp\<close>

subsection \<open>The numpy calls in closed form\<close>

lemma floor_half: "\<lfloor>real_of_int k / 2\<rfloor> = k div 2"
  using floor_divide_of_int_eq[of k 2, where ?'a = real] by simp

lemma split_intervals_div: "split_intervals n = ((n - 1) div 2, n - 1 - (n - 1) div 2)"
  unfolding split_intervals_def Let_def floor_half by simp

lemma linspace_ramp:
  "0 \<le> num \<Longrightarrow> linspace a b num = Inr (map (linear_ramp a b (nat num)) [0..<nat num])"
  apply (simp add: linspace_def Let_def)
  apply (intro conjI impI nth_equalityI)
    apply (auto simp: linear_ramp_def nth_list_update field_simps of_nat_diff)
  done

lemma linspace_negative: "num < 0 \<Longrightarrow> linspace a b num = Inl ValueError"
  by (simp add: linspace_def)

lemma linear_ramp_const: "linear_ramp a a n k = a"
  by (simp add: linear_ramp_def)

lemma map_const_upt: "map (\<lambda>k. c) [0..<n] = replicate n c"
  by (simp add: map_replicate_const)

lemma ramp_const_list: "map (linear_ramp a a n) [0..<m] = replicate m a"
  by (induction m) (simp_all add: linear_ramp_const replicate_append_same)

lemma zip_low:
  "zip (map f [0..<m]) (zip (replicate m d) (map h [0..<m])) = map (\<lambda>k. (f k, d, h k)) [0..<m]"
  by (rule nth_equalityI) simp_all

lemma zip_high:
  "zip (replicate m c) (zip (map g [0..<m]) (replicate m e)) = map (\<lambda>k. (c, g k, e)) [0..<m]"
  by (rule nth_equalityI) simp_all

lemma cmap_nonempty:
  assumes "clines \<noteq> []"
  shows "discrete_cmap_1 clines =
    Inr (ramp_colours ((length clines - 1) div 2) (length clines - 1 - (length clines - 1) div 2))"
proof -
  define N where "N = length clines"
  define m1 where "m1 = (N - 1) div 2"
  define m2 where "m2 = N - 1 - m1"
  have N: "1 \<le> N" using assms by (cases clines) (simp_all add: N_def)
  have s: "split_intervals (int N) = (int m1, int m2)"
    unfolding split_intervals_div m1_def m2_def using N
    by (simp add: of_nat_diff zdiv_int)
  have "discrete_cmap_1 clines = Inr (ramp_colours m1 m2)"
    unfolding discrete_cmap_1_def N_def[symmetric] Let_def s
    by (simp add: linspace_ramp ones_def zeros_def hstack_def ramp_const_list zip_low zip_high
        ramp_colours_def)
  then show ?thesis by (simp only: m1_def m2_def N_def)
qed

lemma cmap_empty: "discrete_cmap_1 [] = Inl ValueError"
  by (simp add: discrete_cmap_1_def linspace_def split_intervals_def)

lemma length_ramp_colours: "length (ramp_colours n1 n2) = n1 + n2"
  by (simp add: ramp_colours_def)


lemma ramp_lower: "k < n \<Longrightarrow> min a b \<le> linear_ramp a b n k"
proof (cases "n \<le> 1")
  case True
  then show ?thesis by (simp add: linear_ramp_def)
next
  case False
  assume k: "k < n"
  define t where "t = real k / real (n - 1)"
  have t: "0 \<le> t" "t \<le> 1" using k False by (simp_all add: t_def)
  have "linear_ramp a b n k = a + (b - a) * t"
    using False by (simp add: linear_ramp_def t_def)
  then have e: "linear_ramp a b n k = (1 - t) * a + t * b"
    by (simp add: algebra_simps)
  have "(1 - t) * min a b + t * min a b \<le> (1 - t) * a + t * b"
    using t by (intro add_mono mult_left_mono) simp_all
  then show ?thesis by (simp add: e algebra_simps)
qed

lemma ramp_upper: "k < n \<Longrightarrow> linear_ramp a b n k \<le> max a b"
proof (cases "n \<le> 1")
  case True
  then show ?thesis by (simp add: linear_ramp_def)
next
  case False
  assume k: "k < n"
  define t where "t = real k / real (n - 1)"
  have t: "0 \<le> t" "t \<le> 1" using k False by (simp_all add: t_def)
  have "linear_ramp a b n k = a + (b - a) * t"
    using False by (simp add: linear_ramp_def t_def)
  then have e: "linear_ramp a b n k = (1 - t) * a + t * b"
    by (simp add: algebra_simps)
  have "(1 - t) * a + t * b \<le> (1 - t) * max a b + t * max a b"
    using t by (intro add_mono mult_left_mono) simp_all
  then show ?thesis by (simp add: e algebra_simps)
qed

lemma ramp_mono: "a \<le> b \<Longrightarrow> i \<le> j \<Longrightarrow> linear_ramp a b n i \<le> linear_ramp a b n j"
  by (simp add: linear_ramp_def divide_right_mono mult_left_mono)

lemma ramp_antimono: "b \<le> a \<Longrightarrow> i \<le> j \<Longrightarrow> linear_ramp a b n j \<le> linear_ramp a b n i"
  by (simp add: linear_ramp_def divide_right_mono mult_left_mono_neg)

lemma sorted_ramp_up: "a \<le> b \<Longrightarrow> sorted_wrt (\<le>) (map (linear_ramp a b n) [0..<m])"
  by (simp add: sorted_wrt_map sorted_wrt_iff_nth_less ramp_mono)

lemma sorted_ramp_down: "b \<le> a \<Longrightarrow> sorted_wrt (\<ge>) (map (linear_ramp a b n) [0..<m])"
  by (simp add: sorted_wrt_map sorted_wrt_iff_nth_less ramp_antimono)

lemma red_channel: "map fst (ramp_colours n1 n2) = map (linear_ramp 0 0.8 n1) [0..<n1] @ replicate n2 1"
  by (simp add: ramp_colours_def comp_def map_replicate_const)

lemma green_channel: "map (fst \<circ> snd) (ramp_colours n1 n2) = replicate n1 1 @ map (linear_ramp 1 0 n2) [0..<n2]"
  by (simp add: ramp_colours_def comp_def map_replicate_const)

lemma blue_channel: "map (snd \<circ> snd) (ramp_colours n1 n2) = map (linear_ramp 1 0.2 n1) [0..<n1] @ replicate n2 0"
  by (simp add: ramp_colours_def comp_def map_replicate_const)

lemma sorted_replicate: "sorted_wrt (\<le>) (replicate n (c::real))" "sorted_wrt (\<ge>) (replicate n (c::real))"
  by (simp_all add: sorted_wrt_iff_nth_less)

lemma ramp_unit:
  assumes "0 \<le> a" "a \<le> 1" "0 \<le> b" "b \<le> 1" "k < n"
  shows "0 \<le> linear_ramp a b n k" "linear_ramp a b n k \<le> 1"
  using ramp_lower[OF assms(5), of a b] ramp_upper[OF assms(5), of a b] assms(1-4)
  by (auto simp: min_def max_def split: if_splits)

lemma red_sorted: "sorted_wrt (\<le>) (map fst (ramp_colours n1 n2))"
  by (simp add: red_channel sorted_wrt_append sorted_ramp_up sorted_replicate ramp_unit)

lemma green_sorted: "sorted_wrt (\<ge>) (map (fst \<circ> snd) (ramp_colours n1 n2))"
  by (simp add: green_channel sorted_wrt_append sorted_ramp_down sorted_replicate ramp_unit)

lemma blue_sorted: "sorted_wrt (\<ge>) (map (snd \<circ> snd) (ramp_colours n1 n2))"
  by (simp add: blue_channel sorted_wrt_append sorted_ramp_down sorted_replicate ramp_unit)

lemma ramp_colours_unit:
  "(r, g, b) \<in> set (ramp_colours n1 n2) \<Longrightarrow> 0 \<le> r \<and> r \<le> 1 \<and> 0 \<le> g \<and> g \<le> 1 \<and> 0 \<le> b \<and> b \<le> 1"
  by (auto simp: ramp_colours_def ramp_unit)

subsection \<open>The claims about \<^verbatim>\<open>discrete_cmap_1\<close>\<close>

text \<open>
  Claim C1. For a breaks sequence of \<open>N \<ge> 2\<close> values \<^verbatim>\<open>discrete_cmap_1\<close> returns (it
  does not raise) a list of exactly \<open>N - 1\<close> colours, one for each interval between
  consecutive breaks.
\<close>

theorem C1_colour_count:
  assumes "2 \<le> length clines"
  shows "\<exists>cs. discrete_cmap_1 clines = Inr cs \<and> length cs = length clines - 1"
proof -
  from assms have "clines \<noteq> []" by auto
  then show ?thesis using assms
    by (simp add: cmap_nonempty length_ramp_colours)
qed

text \<open>C1 at the three breaks 0, 0.5, 1: two colours.\<close>

theorem C1_colour_count_witness:
  "2 \<le> length [0, 0.5, 1 :: real] \<and>
   (\<exists>cs. discrete_cmap_1 [0, 0.5, 1] = Inr cs \<and> length cs = 2)"
  using C1_colour_count [of "[0, 0.5, 1]"] by (simp add: eval_nat_numeral)

text \<open>
  Claim C3 says that for an odd number \<open>N - 1\<close> of intervals the low half is the longer
  one, \<open>n1 > n2\<close>. With the two breaks 0, 1 there is one interval and the split is
  \<open>n1 = 0\<close>, \<open>n2 = 1\<close>: \<open>n2 < n1\<close> fails.
\<close>

theorem C3_counterexample:
  "odd (length [0, 1 :: real] - 1) \<and>
   \<not> snd (split_intervals (int (length [0, 1 :: real]))) < fst (split_intervals (int (length [0, 1 :: real])))"
  by (simp add: split_intervals_div)

text \<open>
  Claim C3, amended. For \<open>N \<ge> 2\<close> breaks with \<open>N - 1\<close> odd, the split gives the extra
  interval to the high half: \<open>n2 = n1 + 1\<close> (the floor is taken for \<open>n1\<close>, and \<open>n2\<close> is
  the rest).
\<close>

theorem C3_extra_interval_high:
  assumes "2 \<le> length clines" and "odd (length clines - 1)"
    and "split_intervals (int (length clines)) = (n1, n2)"
  shows "n2 = n1 + 1"
proof -
  have "int (length clines - 1) = int (length clines) - 1"
    using assms(1) by (simp add: of_nat_diff)
  moreover have "odd (int (length clines - 1))"
    using assms(2) by simp
  ultimately have "odd (int (length clines) - 1)"
    by simp
  then obtain m where "int (length clines) - 1 = 2 * m + 1" ..
  then show ?thesis
    using assms(3) unfolding split_intervals_div by auto

qed

text \<open>The amended C3 at the four breaks 0, 1, 2, 3: three intervals, \<open>n1 = 1\<close>, \<open>n2 = 2\<close>.\<close>

theorem C3_extra_interval_high_witness:
  "2 \<le> length [0, 1, 2, 3 :: real] \<and> odd (length [0, 1, 2, 3 :: real] - 1) \<and>
   split_intervals (int (length [0, 1, 2, 3 :: real])) = (1, 2) \<and> (2::int) = 1 + 1"
proof -
  have h1: "2 \<le> length [0, 1, 2, 3 :: real]" by simp
  have h2: "odd (length [0, 1, 2, 3 :: real] - 1)" by simp
  have h3: "split_intervals (int (length [0, 1, 2, 3 :: real])) = (1, 2)"
    by (simp add: split_intervals_div)
  from C3_extra_interval_high [OF h1 h2 h3] h1 h2 h3 show ?thesis by simp
qed

text \<open>
  Claim C4 says that the function raises ValueError exactly when there are fewer than two
  breaks, in particular on the single break 0. On that input \<open>n1 = n2 = 0\<close>, every
  numpy call returns an empty array, and no exception is raised.
\<close>

theorem C4_counterexample:
  "length [0 :: real] < 2 \<and> discrete_cmap_1 [0] \<noteq> Inl ValueError"
  by (simp add: discrete_cmap_1_def split_intervals_def linspace_def ones_def zeros_def hstack_def)

text \<open>
  Claim C4, amended. The function raises ValueError exactly when the breaks sequence is
  empty (then \<open>n1 = -1\<close> and \<^verbatim>\<open>linspace\<close> refuses the negative number of samples); on
  every non-empty sequence it returns a list, so there is no other failure; on the single
  break 0 it returns the empty list of colours.
\<close>

theorem C4_failure_mode:
  "(discrete_cmap_1 clines = Inl ValueError) = (clines = []) \<and>
   (\<exists>cs. discrete_cmap_1 clines = Inr cs) = (clines \<noteq> []) \<and>
   discrete_cmap_1 [0] = Inr []"
proof -
  have "discrete_cmap_1 [0] = Inr []"
    by (simp add: cmap_nonempty ramp_colours_def)
  then show ?thesis
    by (cases "clines = []") (simp_all add: cmap_empty cmap_nonempty)
qed

text \<open>
  Claim C5 says that the two breaks 0, 1 give the single colour \<open>(0, 1, 1)\<close>. The
  function returns another list.
\<close>

theorem C5_counterexample: "discrete_cmap_1 [0, 1] \<noteq> Inr [(0, 1, 1)]"
  by (simp add: discrete_cmap_1_def split_intervals_def linspace_def ones_def zeros_def hstack_def)

text \<open>
  Claim C5, amended. On the two breaks 0, 1 the function returns exactly one colour, and
  it is \<open>(1, 1, 0)\<close>: with one interval \<open>n1 = 0\<close> and \<open>n2 = 1\<close>, so the colour is the
  first one of the high half.
\<close>

theorem C5_minimal_breaks: "discrete_cmap_1 [0, 1] = Inr [(1, 1, 0)]"
  by (simp add: discrete_cmap_1_def split_intervals_def linspace_def ones_def zeros_def hstack_def)

text \<open>
  Claim C6. For \<open>N \<ge> 2\<close> breaks every channel of every returned colour lies in the
  closed interval from 0 to 1; the function has no clamping step.
\<close>

theorem C6_unit_interval:
  assumes "2 \<le> length clines"
  shows "\<exists>cs. discrete_cmap_1 clines = Inr cs \<and>
    (\<forall>(r, g, b) \<in> set cs. 0 \<le> r \<and> r \<le> 1 \<and> 0 \<le> g \<and> g \<le> 1 \<and> 0 \<le> b \<and> b \<le> 1)"
proof -
  from assms have "clines \<noteq> []" by auto
  then show ?thesis using ramp_colours_unit
    by (simp add: cmap_nonempty split_def) (metis prod.collapse)
qed

text \<open>C6 at the five breaks 0, 1, 2, 3, 4.\<close>

theorem C6_unit_interval_witness:
  "2 \<le> length [0, 1, 2, 3, 4 :: real] \<and>
   (\<exists>cs. discrete_cmap_1 [0, 1, 2, 3, 4] = Inr cs \<and>
     list_all (\<lambda>(r, g, b). 0 \<le> r \<and> r \<le> 1 \<and> 0 \<le> g \<and> g \<le> 1 \<and> 0 \<le> b \<and> b \<le> 1) cs)"
  using C6_unit_interval [of "[0, 1, 2, 3, 4]"] by (simp add: list_all_iff)

text \<open>
  Claim C10. For \<open>N \<ge> 2\<close> breaks the returned colours are monotone in every channel
  over the whole list: red never decreases, green and blue never increase.
\<close>

theorem C10_monotone_channels:
  assumes "2 \<le> length clines"
  shows "\<exists>cs. discrete_cmap_1 clines = Inr cs \<and>
    sorted_wrt (\<le>) (map fst cs) \<and>
    sorted_wrt (\<ge>) (map (fst \<circ> snd) cs) \<and>
    sorted_wrt (\<ge>) (map (snd \<circ> snd) cs)"
proof -
  from assms have "clines \<noteq> []" by auto
  then show ?thesis
    by (simp add: cmap_nonempty red_sorted green_sorted blue_sorted)
qed

text \<open>C10 at the five breaks 0, 1, 2, 3, 4.\<close>

theorem C10_monotone_channels_witness:
  "2 \<le> length [0, 1, 2, 3, 4 :: real] \<and>
   (\<exists>cs. discrete_cmap_1 [0, 1, 2, 3, 4] = Inr cs \<and>
    sorted_wrt (\<le>) (map fst cs) \<and>
    sorted_wrt (\<ge>) (map (fst \<circ> snd) cs) \<and>
    sorted_wrt (\<ge>) (map (snd \<circ> snd) cs))"
  using C10_monotone_channels [of "[0, 1, 2, 3, 4]"] by simp

section \<open>Properties of the colour ramp in binary64 arithmetic\<close>

subsection \<open>Rounding to binary64\<close>







subsection \<open>Relative errors through the operations of \<^verbatim>\<open>linspace\<close>\<close>


lemma rel_err_refl: "rel_err x x 0"
  by (simp add: rel_err_def)











subsection \<open>\<^verbatim>\<open>linspace\<close> in binary64 against the exact ramp\<close>









subsection \<open>The claim about the values of the channels\<close>




section \<open>Properties of the masking cell\<close>

lemma masked_where_copy:
  assumes "a < length st" and "fst c = [] \<or> fst c = shape (st ! a)"
  shows "masked_where c a True st =
     Inr (length st, st @ [(st ! a)\<lparr>mask := Some (mask_or (snd c) (mask (st ! a)))\<rparr>])"
  using assms by (cases c) (auto simp: masked_where_def Let_def)

text \<open>For contrast: with \<^verbatim>\<open>copy=False\<close> the object at the address of \<open>a\<close> is overwritten.\<close>

lemma masked_where_in_place:
  assumes "a < length st" and "fst c = [] \<or> fst c = shape (st ! a)"
  shows "masked_where c a False st =
     Inr (a, st[a := (st ! a)\<lparr>mask := Some (mask_or (snd c) (mask (st ! a)))\<rparr>])"
  using assms by (cases c) (auto simp: masked_where_def Let_def)

text \<open>
  Claim C9. When \<^verbatim>\<open>hmax\<close> and \<^verbatim>\<open>topo\<close> name loaded arrays of the same shape, the two
  masking steps succeed, bind \<^verbatim>\<open>hmax_dry\<close> and \<^verbatim>\<open>hmax_onshore\<close> to two new, distinct
  objects, and leave every object of the store before the cell as it was; in particular
  the arrays that \<^verbatim>\<open>hmax\<close> and \<^verbatim>\<open>topo\<close> name, and the two names themselves.
\<close>

theorem C9_masking_frame:
  assumes "names nb ''hmax'' = Some h" and "names nb ''topo'' = Some t"
    and "h < length (objects nb)" and "t < length (objects nb)"
    and "shape (objects nb ! t) = shape (objects nb ! h)"
  shows "\<exists>nb' d s. masking_cell nb = Inr nb' \<and>
      names nb' ''hmax_dry'' = Some d \<and> names nb' ''hmax_onshore'' = Some s \<and>
      length (objects nb) \<le> d \<and> d < s \<and> s < length (objects nb') \<and>
      names nb' ''hmax'' = Some h \<and> names nb' ''topo'' = Some t \<and>
      take (length (objects nb)) (objects nb') = objects nb \<and>
      objects nb' ! h = objects nb ! h \<and> objects nb' ! t = objects nb ! t"
proof -
  let ?st = "objects nb"
  let ?n = "length ?st"
  let ?dry = "(?st ! h)\<lparr>mask := Some (mask_or (snd (less_scalar (?st ! h) 0.001)) (mask (?st ! h)))\<rparr>"
  let ?st1 = "?st @ [?dry]"
  let ?nb1 = "nb\<lparr>objects := ?st1, names := (names nb)(''hmax_dry'' \<mapsto> ?n)\<rparr>"
  let ?on = "(?st1 ! ?n)\<lparr>mask := Some (mask_or (snd (less_scalar (?st1 ! t) 0)) (mask (?st1 ! ?n)))\<rparr>"
  let ?st2 = "?st1 @ [?on]"
  let ?nb2 = "?nb1\<lparr>objects := ?st2, names := (names ?nb1)(''hmax_onshore'' \<mapsto> Suc ?n)\<rparr>"
  have l1: "lookup nb ''hmax'' = Inr h"
    using assms(1,3) by (simp add: lookup_def)
  have m1: "masked_where (less_scalar (?st ! h) 0.001) h True ?st = Inr (?n, ?st1)"
    using assms(3) by (simp add: masked_where_copy less_scalar_def)
  have l2: "lookup ?nb1 ''topo'' = Inr t"
    using assms(2,4) by (simp add: lookup_def)
  have l3: "lookup ?nb1 ''hmax_dry'' = Inr ?n"
    by (simp add: lookup_def)
  have "shape (?st1 ! ?n) = shape (?st ! h)" by simp
  moreover have "?st1 ! t = ?st ! t" using assms(4) by (simp add: nth_append)
  ultimately have "masked_where (less_scalar (?st1 ! t) 0) ?n True ?st1 = Inr (Suc ?n, ?st2)"
    using assms(5) by (subst masked_where_copy) (simp_all add: less_scalar_def)
  then have m2: "masked_where (less_scalar (objects ?nb1 ! t) 0) ?n True (objects ?nb1)
      = Inr (Suc ?n, ?st2)"
    by simp
  have run: "masking_cell nb = Inr ?nb2"
    by (simp only: masking_cell_def l1 sum.case Let_def m1 prod.case l2 l3 m2)
  show ?thesis
    unfolding run using assms(1-4) by (simp add: nth_append)
qed

text \<open>
  C9 on the example notebook: the cell returns, and the two loaded arrays are the ones
  that were there before.
\<close>

theorem C9_masking_frame_witness:
  "names demo_notebook ''hmax'' = Some 0 \<and> names demo_notebook ''topo'' = Some 1 \<and>
   0 < length (objects demo_notebook) \<and> 1 < length (objects demo_notebook) \<and>
   shape (objects demo_notebook ! 1) = shape (objects demo_notebook ! 0) \<and>
   (\<exists>nb'. masking_cell demo_notebook = Inr nb' \<and>
      names nb' ''hmax'' = Some 0 \<and> names nb' ''topo'' = Some 1 \<and>
      objects nb' ! 0 = \<lparr>shape = [1, 3], data = [0, 2.5, 1.5], mask = None\<rparr> \<and>
      objects nb' ! 1 = \<lparr>shape = [1, 3], data = [-1, 3, -2], mask = None\<rparr>)"
proof -
  have h: "names demo_notebook ''hmax'' = Some 0" "names demo_notebook ''topo'' = Some 1"
    "0 < length (objects demo_notebook)" "1 < length (objects demo_notebook)"
    "shape (objects demo_notebook ! 1) = shape (objects demo_notebook ! 0)"
    by (simp_all add: demo_notebook_def)
  have o: "objects demo_notebook ! 0 = \<lparr>shape = [1, 3], data = [0, 2.5, 1.5], mask = None\<rparr>"
    "objects demo_notebook ! 1 = \<lparr>shape = [1, 3], data = [-1, 3, -2], mask = None\<rparr>"
    by (simp_all add: demo_notebook_def)
  from C9_masking_frame [OF h] o h show ?thesis
    by auto
qed

section \<open>Properties of the grid loader\<close>

lemma hkey_UNIV:
  "(UNIV :: hkey set) = {K_ncols, K_nrows, K_xllcorner, K_yllcorner, K_cellsize, K_nodata_value}"
proof -
  have "k \<in> {K_ncols, K_nrows, K_xllcorner, K_yllcorner, K_cellsize, K_nodata_value}" for k
    by (cases k) simp_all
  then show ?thesis by blast
qed

lemma card_hkey: "card (UNIV :: hkey set) = 6"
  by (simp add: hkey_UNIV)

lemma finite_hkey: "finite (UNIV :: hkey set)"
  unfolding hkey_UNIV by simp

lemma all_seen_dom: "all_seen seen \<longleftrightarrow> dom seen = UNIV"
proof
  assume a: "all_seen seen"
  have "seen k \<noteq> None" for k
    using a by (cases k) (simp_all add: all_seen_def)
  then show "dom seen = UNIV" by (auto simp: dom_def)
next
  assume "dom seen = UNIV"
  then have "seen k \<noteq> None" for k by (auto simp: dom_def)
  then show "all_seen seen" by (simp add: all_seen_def)
qed

lemma read_header_done: "all_seen seen \<Longrightarrow> read_header ls seen = Inr (seen, ls)"
  by (cases ls) simp_all

lemma map_add_upd_fresh: "k \<notin> dom m \<Longrightarrow> s(k \<mapsto> v) ++ m = (s ++ m)(k \<mapsto> v)"
  by (rule ext) (auto simp: map_add_def split: option.splits)

lemma read_header_entries:
  assumes "list_all (\<lambda>l. header_entry l \<noteq> None) hl"
    and "distinct (map (\<lambda>l. fst (the (header_entry l))) hl)"
    and "dom seen \<inter> set (map (\<lambda>l. fst (the (header_entry l))) hl) = {}"
    and "dom seen \<union> set (map (\<lambda>l. fst (the (header_entry l))) hl) = UNIV"
  shows "read_header (hl @ dl) seen =
         Inr (seen ++ map_of (map the (map header_entry hl)), dl)"
  using assms
proof (induction hl arbitrary: seen)
  case Nil
  then have "all_seen seen" by (simp add: all_seen_dom)
  then show ?case by (simp add: read_header_done)
next
  case (Cons l hl)
  from Cons.prems(1) obtain k v where e: "header_entry l = Some (k, v)"
    by auto
  from Cons.prems(3) e have k: "k \<notin> dom seen" by auto
  then have n: "\<not> all_seen seen" by (auto simp: all_seen_dom)
  from Cons.prems(2) e have kn: "k \<notin> set (map (\<lambda>l. fst (the (header_entry l))) hl)"
    by simp
  have ih: "read_header (hl @ dl) (seen(k \<mapsto> v)) =
        Inr (seen(k \<mapsto> v) ++ map_of (map the (map header_entry hl)), dl)"
  proof (rule Cons.IH)
    show "list_all (\<lambda>l. header_entry l \<noteq> None) hl" using Cons.prems(1) by simp
    show "distinct (map (\<lambda>l. fst (the (header_entry l))) hl)" using Cons.prems(2) by simp
    show "dom (seen(k \<mapsto> v)) \<inter> set (map (\<lambda>l. fst (the (header_entry l))) hl) = {}"
      using Cons.prems(3) kn by auto
    show "dom (seen(k \<mapsto> v)) \<union> set (map (\<lambda>l. fst (the (header_entry l))) hl) = UNIV"
      using Cons.prems(4) e by auto
  qed
  have fresh: "k \<notin> dom (map_of (map (the \<circ> header_entry) hl))"
    using kn by (simp add: dom_map_of_conv_image_fst image_image)
  have "read_header ((l # hl) @ dl) seen = read_header (hl @ dl) (seen(k \<mapsto> v))"
    using n e by simp
  also note ih
  also have "seen(k \<mapsto> v) ++ map_of (map the (map header_entry hl)) =
             seen ++ map_of (map the (map header_entry (l # hl)))"
    using e by (simp add: map_add_upd_fresh [OF fresh])
  finally show ?case .
qed

lemma distinct_keys_all:
  fixes ks :: "hkey list"
  assumes "distinct ks" and "length ks = 6"
  shows "set ks = UNIV"
proof -
  have "card (set ks) = card (UNIV :: hkey set)"
    using assms by (simp add: distinct_card card_hkey)
  then show ?thesis
    by (intro card_subset_eq finite_hkey) simp_all
qed

lemma read_header_well_formed:
  assumes "6 \<le> length ls"
    and "list_all (\<lambda>l. header_entry l \<noteq> None) (take 6 ls)"
    and "distinct (map (\<lambda>l. fst (the (header_entry l))) (take 6 ls))"
  shows "read_header ls Map.empty = Inr (declared ls, drop 6 ls)"
proof -
  have "set (map (\<lambda>l. fst (the (header_entry l))) (take 6 ls)) = UNIV"
    using assms(1,3) by (intro distinct_keys_all) simp_all
  then have "read_header (take 6 ls @ drop 6 ls) Map.empty =
      Inr (Map.empty ++ map_of (map the (map header_entry (take 6 ls))), drop 6 ls)"
    using assms(2,3) by (intro read_header_entries) simp_all
  then show ?thesis by (simp add: declared_def)
qed

lemma parse_floats_total:
  "list_all (\<lambda>t. pfloat t \<noteq> None) ts \<Longrightarrow>
   \<exists>vs. parse_floats pfloat ts = Some vs \<and> length vs = length ts"
  by (induction ts) auto

lemma parse_rows_total:
  "list_all (\<lambda>l. int (length (tokens l)) = nc \<and> list_all (\<lambda>t. pfloat t \<noteq> None) (tokens l)) ls \<Longrightarrow>
   \<exists>rs. parse_rows pfloat nc ls = Some rs \<and> length rs = length ls \<and>
        (\<forall>r \<in> set rs. int (length r) = nc)"
proof (induction ls)
  case Nil
  then show ?case by simp
next
  case (Cons l ls)
  then obtain rs where rs: "parse_rows pfloat nc ls = Some rs" "length rs = length ls"
      "\<forall>r \<in> set rs. int (length r) = nc"
    by auto
  from Cons.prems obtain vs where vs: "parse_floats pfloat (tokens l) = Some vs"
      "length vs = length (tokens l)"
    using parse_floats_total [of pfloat "tokens l"] by auto
  from Cons.prems have "int (length (tokens l)) = nc" by simp
  with rs vs show ?case by (simp add: parse_row_def)
qed

lemma length_x_coords: "length (x_coords h) = nat (ncols h)"
  by (simp add: x_coords_def)

lemma length_y_coords: "length (y_coords h) = nat (nrows h)"
  by (simp add: y_coords_def)

lemma x_coords_increasing: "0 < cell_size h \<Longrightarrow> sorted_wrt (<) (x_coords h)"
  by (simp add: x_coords_def sorted_wrt_map sorted_wrt_iff_nth_less)

lemma y_coords_decreasing: "0 < cell_size h \<Longrightarrow> sorted_wrt (>) (y_coords h)"
  by (simp add: y_coords_def sorted_wrt_map sorted_wrt_iff_nth_less)

text \<open>
  Claim C8. For a well-formed raster file the loader returns a grid whose header is the
  one the file declares, whose value array has \<open>nrows\<close> rows of \<open>ncols\<close> values each,
  whose \<open>X\<close> has length \<open>ncols\<close> and is strictly increasing, and whose \<open>Y\<close> has length
  \<open>nrows\<close> and is strictly decreasing.
\<close>

theorem C8_loader_shape:
  assumes "fs path = Some ls" and "well_formed pint pfloat ls"
  shows "\<exists>g report. load_raster pint pfloat fs path validate = Inr (g, report) \<and>
     make_header pint pfloat (declared ls) = Some (header g) \<and>
     int (length (grid_values g)) = nrows (header g) \<and>
     (\<forall>row \<in> set (grid_values g). int (length row) = ncols (header g)) \<and>
     int (length (X g)) = ncols (header g) \<and> sorted_wrt (<) (X g) \<and>
     int (length (Y g)) = nrows (header g) \<and> sorted_wrt (>) (Y g)"
proof -
  from assms(2) obtain h where h: "make_header pint pfloat (declared ls) = Some h"
    and pos: "0 < ncols h" "0 < nrows h" "0 < cell_size h"
    and nr: "int (length (drop 6 ls)) = nrows h"
    and rows: "list_all (\<lambda>l. int (length (tokens l)) = ncols h \<and>
                 list_all (\<lambda>t. pfloat t \<noteq> None) (tokens l)) (drop 6 ls)"
    by (auto simp: well_formed_def split: option.splits)
  from assms(2) have rh: "read_header ls Map.empty = Inr (declared ls, drop 6 ls)"
    by (intro read_header_well_formed) (simp_all add: well_formed_def)
  from parse_rows_total [OF rows] obtain rs where
    rs: "parse_rows pfloat (ncols h) (drop 6 ls) = Some rs" "length rs = length (drop 6 ls)"
      "\<forall>r \<in> set rs. int (length r) = ncols h"
    by auto
  have "load_raster pint pfloat fs path validate =
      Inr (\<lparr>header = h, grid_values = rs, X = x_coords h, Y = y_coords h\<rparr>,
           if validate then Some (length (filter (\<lambda>v. v = nodata_value h) (concat rs))) else None)"
    using nr rs(2) by (simp add: load_raster_def assms(1) rh h rs(1))
  then show ?thesis
    using h pos nr rs(2,3)
    by (simp add: length_x_coords length_y_coords x_coords_increasing y_coords_decreasing)
qed

text \<open>C8 on the example file: two rows, three columns, cell size 2.\<close>

theorem C8_loader_shape_witness:
  "demo_fs ''hmax_CC.asc'' = Some demo_lines \<and> well_formed demo_pint demo_pfloat demo_lines \<and>
   (\<exists>g report. load_raster demo_pint demo_pfloat demo_fs ''hmax_CC.asc'' True = Inr (g, report) \<and>
      grid_values g = [[1, 2, 3], [4, -9999, 5]] \<and> report = Some 1 \<and>
      X g = [11, 13, 15] \<and> Y g = [23, 21] \<and>
      int (length (grid_values g)) = nrows (header g) \<and>
      int (length (X g)) = ncols (header g) \<and> sorted_wrt (<) (X g) \<and>
      int (length (Y g)) = nrows (header g) \<and> sorted_wrt (>) (Y g))"
proof -
  have f: "demo_fs ''hmax_CC.asc'' = Some demo_lines"
    by (simp add: demo_fs_def)
  have w: "well_formed demo_pint demo_pfloat demo_lines"
    by code_simp
  have e: "load_raster demo_pint demo_pfloat demo_fs ''hmax_CC.asc'' True =
      Inr (\<lparr>header = \<lparr>ncols = 3, nrows = 2, xll_corner = 10, yll_corner = 20,
                       cell_size = 2, nodata_value = -9999\<rparr>,
             grid_values = [[1, 2, 3], [4, -9999, 5]], X = [11, 13, 15], Y = [23, 21]\<rparr>,
           Some 1)"
    by code_simp
  from C8_loader_shape [where fs = demo_fs and path = "''hmax_CC.asc''" and validate = True, OF f w]
    e f w
  show ?thesis
    by auto
qed

end
